theory Spec2Isabelle
  imports Complex_Main
begin

section \<open>The documentation generator of \<^verbatim>\<open>generate-docs.js\<close>\<close>

text \<open>
  The class \<^verbatim>\<open>DocumentationGenerator\<close> analyses a code base, scores ten architectural
  domains and asks an external service for one guide per domain. The analyzers, the
  validators and the client of the service are collaborators whose code is not part of
  the file; they enter the model as parameters.

  JavaScript numbers are IEEE doubles. The scores are modelled as exact rationals: the
  weights \<^verbatim>\<open>0.4\<close>, \<^verbatim>\<open>0.4\<close> and \<^verbatim>\<open>0.2\<close> are \<open>4/10\<close>, \<open>4/10\<close> and \<open>2/10\<close>. In doubles
  the sum \<^verbatim>\<open>0.4 + 0.2\<close> is one unit in the last place above \<^verbatim>\<open>0.6\<close>; comparisons of
  scores with each other, with 0 and with 1 come out the same in both arithmetics.
\<close>

subsection \<open>Objects\<close>

text \<open>
  A plain object is the list of its own properties in the order \<^verbatim>\<open>Object.keys\<close>
  enumerates them. Reading a property that is absent yields \<^verbatim>\<open>undefined\<close>, here \<open>None\<close>.
\<close>

type_synonym 'a obj = "(string \<times> 'a) list"

definition getProp :: "'a obj \<Rightarrow> string \<Rightarrow> 'a option" where
  "getProp ob k = map_of ob k"

definition Object_keys :: "'a obj \<Rightarrow> string list" where
  "Object_keys ob = map fst ob"

subsection \<open>Detector outputs\<close>

text \<open>
  The analyzers are taken to return what the scorer reads: a technology stack with a
  \<^verbatim>\<open>configurations\<close> object, an architecture with a \<^verbatim>\<open>patterns\<close> object of arrays, and
  an object of example arrays.
\<close>

record 'c techStack =
  configurations :: "'c obj"

record 'p architecture =
  patterns :: "('p list) obj"

type_synonym 'e codeExamples = "('e list) obj"

subsection \<open>Scoring\<close>

definition domains :: "string list" where
  "domains =
     [''authentication'', ''components'', ''state'', ''backgroundJobs'',
      ''fileStorage'', ''database'', ''errorHandling'', ''testing'',
      ''integration'', ''deployment'']"

text \<open>
  \<^verbatim>\<open>architecture.patterns[domain]?.length > 0\<close>: an absent property gives
  \<^verbatim>\<open>undefined > 0\<close>, which is false.
\<close>

definition hasPatterns :: "'p architecture \<Rightarrow> string \<Rightarrow> bool" where
  "hasPatterns arch domain =
     (case getProp (patterns arch) domain of None \<Rightarrow> False | Some ps \<Rightarrow> length ps > 0)"

definition hasExamples :: "'e codeExamples \<Rightarrow> string \<Rightarrow> bool" where
  "hasExamples codeExamples domain =
     (case getProp codeExamples domain of None \<Rightarrow> False | Some es \<Rightarrow> length es > 0)"

definition hasConfig :: "'c techStack \<Rightarrow> string \<Rightarrow> bool" where
  "hasConfig ts domain = (getProp (configurations ts) domain \<noteq> None)"

text \<open>The variable \<^verbatim>\<open>score\<close> after the three conditional additions.\<close>

definition scoreBeforeClamp ::
  "'c techStack \<Rightarrow> 'p architecture \<Rightarrow> 'e codeExamples \<Rightarrow> string \<Rightarrow> rat" where
  "scoreBeforeClamp ts arch codeExamples domain =
     (let score0 = 0;
          score1 = (if hasPatterns arch domain then score0 + 4 / 10 else score0);
          score2 = (if hasExamples codeExamples domain then score1 + 4 / 10 else score1);
          score3 = (if hasConfig ts domain then score2 + 2 / 10 else score2)
      in score3)"

text \<open>\<^verbatim>\<open>scores[domain] = Math.min(score, 1.0)\<close>\<close>

definition domainConfidence ::
  "'c techStack \<Rightarrow> 'p architecture \<Rightarrow> 'e codeExamples \<Rightarrow> string \<Rightarrow> rat" where
  "domainConfidence ts arch codeExamples domain =
     min (scoreBeforeClamp ts arch codeExamples domain) 1"

definition calculateConfidenceScores ::
  "'c techStack \<Rightarrow> 'p architecture \<Rightarrow> 'e codeExamples \<Rightarrow> rat obj" where
  "calculateConfidenceScores ts arch codeExamples =
     map (\<lambda>domain. (domain, domainConfidence ts arch codeExamples domain)) domains"

text \<open>
  \<^verbatim>\<open>architecture.patterns[domain] || []\<close> and \<^verbatim>\<open>codeExamples[domain] || []\<close>: an
  absent property counts as the empty array.
\<close>

definition orEmpty :: "'a list option \<Rightarrow> 'a list" where
  "orEmpty v = (case v of None \<Rightarrow> [] | Some xs \<Rightarrow> xs)"

definition domainCompleteness :: "'p architecture \<Rightarrow> 'e codeExamples \<Rightarrow> string \<Rightarrow> rat" where
  "domainCompleteness arch codeExamples domain =
     (let ps = orEmpty (getProp (patterns arch) domain);
          es = orEmpty (getProp codeExamples domain)
      in if length ps > 0
         then min (of_nat (length es) / of_nat (max (length ps) 1)) 1
         else 0)"

definition calculateCompletenessScores ::
  "'p architecture \<Rightarrow> 'e codeExamples \<Rightarrow> rat obj" where
  "calculateCompletenessScores arch codeExamples =
     map (\<lambda>domain. (domain, domainCompleteness arch codeExamples domain))
       (Object_keys (patterns arch))"

text \<open>The clamp of the specification, and the counts it speaks of.\<close>

definition clamp01 :: "rat \<Rightarrow> rat" where
  "clamp01 x = max 0 (min x 1)"

definition patternMatchCount :: "'p architecture \<Rightarrow> string \<Rightarrow> nat" where
  "patternMatchCount arch domain = length (orEmpty (getProp (patterns arch) domain))"

definition acceptedExampleCount :: "'e codeExamples \<Rightarrow> string \<Rightarrow> nat" where
  "acceptedExampleCount codeExamples domain = length (orEmpty (getProp codeExamples domain))"

subsection \<open>Outcomes of effectful calls\<close>

text \<open>
  A collaborator (file system, analyzer, validator, generation service) either fails with
  a message (\<open>Inl\<close>) or yields a value (\<open>Inr\<close>). A method of the generator returns a
  value, throws, or terminates the process through \<^verbatim>\<open>process.exit\<close>.
\<close>

datatype 'a outcome = Value 'a | Throw string | Exit nat

definition fromCall :: "string + 'a \<Rightarrow> 'a outcome" where
  "fromCall r = (case r of Inl e \<Rightarrow> Throw e | Inr v \<Rightarrow> Value v)"

definition andThen :: "'a outcome \<Rightarrow> ('a \<Rightarrow> 'b outcome) \<Rightarrow> 'b outcome" where
  "andThen m f = (case m of Value v \<Rightarrow> f v | Throw e \<Rightarrow> Throw e | Exit n \<Rightarrow> Exit n)"

definition path_join :: "string \<Rightarrow> string \<Rightarrow> string" where
  "path_join dir file = dir @ ''/'' @ file"

subsection \<open>Configuration, generator state and the outside world\<close>

record aiConfig =
  rateLimitDelay :: "nat option"

record config =
  ai :: "aiConfig option"

record fileStructure =
  totalFiles :: "nat option"

record ('c, 'p, 'e) analysisResult =
  project_structure :: fileStructure
  techStack :: "'c techStack"
  architecture :: "'p architecture"
  examples :: "'e codeExamples"
  metadata_confidence :: "rat obj"
  metadata_completeness :: "rat obj"

record ('c, 'p, 'e) generator =
  projectRoot :: string
  configPath :: string
  outputPath :: string
  config :: "config option"
  analysis :: "('c, 'p, 'e) analysisResult option"
  aiClient :: bool

datatype analyzer = TechStackAnalyzer | ArchitectureAnalyzer | CodeExtractor | FileStructureAnalyzer

datatype validator = AccuracyValidator | CompletenessValidator | ConsistencyValidator

text \<open>
  Everything the generator calls but does not define. The analyzers, the validators and
  the client are constructed from the configuration; the analyzers and the validators are
  asynchronous, and \<open>settleTime\<close> says when each analyzer's promise settles.
\<close>

record ('c, 'p, 'e) world =
  readFile :: "string \<Rightarrow> string + string"
  writeFile :: "string \<Rightarrow> string + unit"
  mkdir :: "string \<Rightarrow> string + unit"
  JSON_parse :: "string \<Rightarrow> string + config"
  newAIClient :: "aiConfig option \<Rightarrow> string + unit"
  newAnalyzers :: "config option \<Rightarrow> string + unit"
  techStackAnalyze :: "string \<Rightarrow> string + 'c techStack"
  architectureAnalyze :: "string \<Rightarrow> string + 'p architecture"
  codeExtract :: "string \<Rightarrow> string + 'e codeExamples"
  fileStructureAnalyze :: "string \<Rightarrow> string + fileStructure"
  settleTime :: "analyzer \<Rightarrow> nat"
  generateContent :: "string \<Rightarrow> string \<Rightarrow> string + string"
  newValidators :: "config option \<Rightarrow> string + unit"
  validate :: "validator \<Rightarrow> string \<Rightarrow> string + string"

text \<open>
  The constructor: \<^verbatim>\<open>options.projectRoot || process.cwd()\<close> and the two default paths;
  an absent option and the empty string both take the default.
\<close>

record options =
  opt_projectRoot :: "string option"
  opt_configPath :: "string option"
  opt_outputPath :: "string option"

definition orDefault :: "string option \<Rightarrow> string \<Rightarrow> string" where
  "orDefault v d = (case v of None \<Rightarrow> d | Some s \<Rightarrow> (if s = [] then d else s))"

definition DocumentationGenerator :: "string \<Rightarrow> options \<Rightarrow> ('c, 'p, 'e) generator" where
  "DocumentationGenerator cwd opts =
     \<lparr>projectRoot = orDefault (opt_projectRoot opts) cwd,
      configPath = orDefault (opt_configPath opts) ''./config/analysis-config.json'',
      outputPath = orDefault (opt_outputPath opts) ''./output/generated-docs'',
      config = None,
      analysis = None,
      aiClient = False\<rparr>"

subsection \<open>Initialisation\<close>

definition loadConfig :: "('c, 'p, 'e) world \<Rightarrow> ('c, 'p, 'e) generator \<Rightarrow> config outcome" where
  "loadConfig w g =
     (case readFile w (configPath g) of
        Inl e \<Rightarrow> Exit 1
      | Inr configData \<Rightarrow>
          (case JSON_parse w configData of
             Inl e \<Rightarrow> Exit 1
           | Inr c \<Rightarrow> Value c))"

definition initialize ::
  "('c, 'p, 'e) world \<Rightarrow> ('c, 'p, 'e) generator \<Rightarrow> ('c, 'p, 'e) generator outcome" where
  "initialize w g =
     andThen (loadConfig w g) (\<lambda>c.
     andThen (fromCall (newAIClient w (ai c))) (\<lambda>_.
     andThen (fromCall (mkdir w (outputPath g))) (\<lambda>_.
       Value (g\<lparr>config := Some c, aiClient := True\<rparr>))))"

subsection \<open>Analysis\<close>

datatype analysisEvent = Invoked analyzer string | Settled analyzer

definition analyzers :: "analyzer list" where
  "analyzers = [TechStackAnalyzer, ArchitectureAnalyzer, CodeExtractor, FileStructureAnalyzer]"

definition rejection :: "('c, 'p, 'e) world \<Rightarrow> string \<Rightarrow> analyzer \<Rightarrow> string option" where
  "rejection w rootPath a =
     (case a of
        TechStackAnalyzer \<Rightarrow> (case techStackAnalyze w rootPath of Inl e \<Rightarrow> Some e | Inr _ \<Rightarrow> None)
      | ArchitectureAnalyzer \<Rightarrow> (case architectureAnalyze w rootPath of Inl e \<Rightarrow> Some e | Inr _ \<Rightarrow> None)
      | CodeExtractor \<Rightarrow> (case codeExtract w rootPath of Inl e \<Rightarrow> Some e | Inr _ \<Rightarrow> None)
      | FileStructureAnalyzer \<Rightarrow> (case fileStructureAnalyze w rootPath of Inl e \<Rightarrow> Some e | Inr _ \<Rightarrow> None))"

text \<open>
  \<^verbatim>\<open>await Promise.all([...])\<close>: the four promises settle in the order of their settle
  times (array order among equals); the await throws at the first rejection and
  otherwise returns once all four have resolved.
\<close>

definition settleOrder :: "('c, 'p, 'e) world \<Rightarrow> analyzer list" where
  "settleOrder w = sort_key (settleTime w) analyzers"

fun awaitAll :: "(analyzer \<Rightarrow> string option) \<Rightarrow> analyzer list \<Rightarrow> analysisEvent list \<times> string option" where
  "awaitAll rej [] = ([], None)"
| "awaitAll rej (a # as) =
     (case rej a of
        Some e \<Rightarrow> ([Settled a], Some e)
      | None \<Rightarrow> (Settled a # fst (awaitAll rej as), snd (awaitAll rej as)))"

definition saveAnalysisResults ::
  "('c, 'p, 'e) world \<Rightarrow> ('c, 'p, 'e) generator \<Rightarrow> unit outcome" where
  "saveAnalysisResults w g =
     fromCall (writeFile w (path_join (outputPath g) ''analysis-results.json''))"

definition compileAnalysis ::
  "'c techStack \<Rightarrow> 'p architecture \<Rightarrow> 'e codeExamples \<Rightarrow> fileStructure
     \<Rightarrow> ('c, 'p, 'e) analysisResult" where
  "compileAnalysis ts arch codeExamples fs =
     \<lparr>project_structure = fs,
      techStack = ts,
      architecture = arch,
      examples = codeExamples,
      metadata_confidence = calculateConfidenceScores ts arch codeExamples,
      metadata_completeness = calculateCompletenessScores arch codeExamples\<rparr>"

text \<open>
  \<open>analyzeCodebase\<close> returns the generator with \<open>analysis\<close> set, the events of the
  analyzers in the order they happen, and the outcome of the method. The four calls of the
  array literal are evaluated, each with \<^verbatim>\<open>this.projectRoot\<close>, before \<^verbatim>\<open>Promise.all\<close>
  is awaited.
\<close>

definition analyzeCodebase ::
  "('c, 'p, 'e) world \<Rightarrow> ('c, 'p, 'e) generator
     \<Rightarrow> ('c, 'p, 'e) generator \<times> analysisEvent list \<times> ('c, 'p, 'e) analysisResult outcome" where
  "analyzeCodebase w g =
     (case newAnalyzers w (config g) of
        Inl e \<Rightarrow> (g, [], Throw e)
      | Inr _ \<Rightarrow>
          (let rootPath = projectRoot g;
               invoked = map (\<lambda>a. Invoked a rootPath) analyzers;
               awaited = awaitAll (rejection w rootPath) (settleOrder w);
               trace = invoked @ fst awaited
           in case (techStackAnalyze w rootPath, architectureAnalyze w rootPath,
                    codeExtract w rootPath, fileStructureAnalyze w rootPath) of
                (Inr ts, Inr arch, Inr codeExamples, Inr fs) \<Rightarrow>
                  (let an = compileAnalysis ts arch codeExamples fs;
                       g' = g\<lparr>analysis := Some an\<rparr>
                   in (g', trace, andThen (saveAnalysisResults w g') (\<lambda>_. Value an)))
              | _ \<Rightarrow>
                  (g, trace, Throw (case snd awaited of Some e \<Rightarrow> e | None \<Rightarrow> []))))"

text \<open>
  The staging the specification describes, as a property of a trace: the extractor is
  invoked only once the architecture analyzer has settled.
\<close>

fun stagedBehind :: "bool \<Rightarrow> analysisEvent list \<Rightarrow> bool" where
  "stagedBehind detected [] = True"
| "stagedBehind detected (Settled a # evs) =
     stagedBehind (detected \<or> a = ArchitectureAnalyzer) evs"
| "stagedBehind detected (Invoked a rootPath # evs) =
     ((if a = CodeExtractor then detected else True) \<and> stagedBehind detected evs)"

subsection \<open>Guides\<close>

record guide =
  name :: string
  priority :: int

definition guides :: "guide list" where
  "guides =
     [\<lparr>name = ''authentication-architecture'', priority = 1\<rparr>,
      \<lparr>name = ''component-architecture'', priority = 1\<rparr>,
      \<lparr>name = ''state-management-architecture'', priority = 1\<rparr>,
      \<lparr>name = ''background-jobs-architecture'', priority = 2\<rparr>,
      \<lparr>name = ''file-storage-architecture'', priority = 2\<rparr>,
      \<lparr>name = ''database-architecture'', priority = 2\<rparr>,
      \<lparr>name = ''error-handling-architecture'', priority = 3\<rparr>,
      \<lparr>name = ''testing-architecture'', priority = 3\<rparr>,
      \<lparr>name = ''integration-architecture'', priority = 3\<rparr>,
      \<lparr>name = ''deployment-architecture'', priority = 3\<rparr>]"

text \<open>\<^verbatim>\<open>String.prototype.replace\<close> with a string pattern replaces its first occurrence.\<close>

fun replaceFirst :: "string \<Rightarrow> string \<Rightarrow> string \<Rightarrow> string" where
  "replaceFirst pat rep [] = (if pat = [] then rep else [])"
| "replaceFirst pat rep (c # cs) =
     (if take (length pat) (c # cs) = pat then rep @ drop (length pat) (c # cs)
      else c # replaceFirst pat rep cs)"

definition focusArea :: "string \<Rightarrow> string" where
  "focusArea guideName = replaceFirst ''-architecture'' [] guideName"

text \<open>
  \<^verbatim>\<open>this.analysis.metadata.confidence[name.replace('-architecture', '')] || 0\<close>:
  an absent property and a score of \<open>0\<close> both give \<open>0\<close>.
\<close>

definition guideConfidence :: "rat obj \<Rightarrow> string \<Rightarrow> rat" where
  "guideConfidence confidence guideName =
     (case getProp confidence (focusArea guideName) of
        None \<Rightarrow> 0
      | Some c \<Rightarrow> (if c = 0 then 0 else c))"

definition compareGuides :: "rat obj \<Rightarrow> guide \<Rightarrow> guide \<Rightarrow> rat" where
  "compareGuides confidence a b =
     (let aConfidence = guideConfidence confidence (name a);
          bConfidence = guideConfidence confidence (name b)
      in if priority a \<noteq> priority b then of_int (priority a - priority b)
         else bConfidence - aConfidence)"

text \<open>
  \<^verbatim>\<open>Array.prototype.sort\<close> is stable; with a comparator that is a consistent ordering
  its result is that of a stable insertion sort.
\<close>

fun insertBy :: "('a \<Rightarrow> 'a \<Rightarrow> rat) \<Rightarrow> 'a \<Rightarrow> 'a list \<Rightarrow> 'a list" where
  "insertBy cmp x [] = [x]"
| "insertBy cmp x (y # ys) =
     (if cmp x y \<le> 0 then x # y # ys else y # insertBy cmp x ys)"

definition sortBy :: "('a \<Rightarrow> 'a \<Rightarrow> rat) \<Rightarrow> 'a list \<Rightarrow> 'a list" where
  "sortBy cmp xs = foldr (insertBy cmp) xs []"

subsection \<open>Generation\<close>

datatype guideResult =
  StatusSuccess string string rat
| StatusError string string

fun resultGuide :: "guideResult \<Rightarrow> string" where
  "resultGuide (StatusSuccess g p c) = g"
| "resultGuide (StatusError g e) = g"

datatype generationEvent = GenerateCall string | WriteGuide string | Delay nat

text \<open>
  \<open>generateGuide\<close> builds the prompt of one guide from the master prompt, the guide name
  and the analysis, and awaits the reply of the client; without a client the call is a
  \<^verbatim>\<open>TypeError\<close>.
\<close>

definition generateGuide ::
  "('c, 'p, 'e) world \<Rightarrow> ('c, 'p, 'e) generator \<Rightarrow> string \<Rightarrow> string \<Rightarrow> string + string" where
  "generateGuide w g guideName masterPrompt =
     (if aiClient g then generateContent w guideName masterPrompt
      else Inl ''TypeError: aiClient is null'')"

text \<open>\<^verbatim>\<open>this.config.ai.rateLimitDelay || 100\<close>: the read fails without \<^verbatim>\<open>config.ai\<close>.\<close>

definition rateLimit :: "('c, 'p, 'e) generator \<Rightarrow> string + nat" where
  "rateLimit g =
     (case config g of
        None \<Rightarrow> Inl ''TypeError: config is null''
      | Some c \<Rightarrow>
          (case ai c of
             None \<Rightarrow> Inl ''TypeError: config.ai is undefined''
           | Some a \<Rightarrow>
               (case rateLimitDelay a of
                  None \<Rightarrow> Inr 100
                | Some ms \<Rightarrow> Inr (if ms = 0 then 100 else ms))))"

text \<open>
  One iteration of the loop over the sorted guides. The state of the loop is the array
  \<open>results\<close> and the events issued so far. An exception anywhere in the \<^verbatim>\<open>try\<close> block
  lands in the \<^verbatim>\<open>catch\<close>, which pushes an error result.
\<close>

definition generateStep ::
  "('c, 'p, 'e) world \<Rightarrow> ('c, 'p, 'e) generator \<Rightarrow> rat obj \<Rightarrow> string
     \<Rightarrow> guideResult list \<times> generationEvent list \<Rightarrow> guide
     \<Rightarrow> guideResult list \<times> generationEvent list" where
  "generateStep w g confidence masterPrompt st gd =
     (let results = fst st;
          trace = snd st @ [GenerateCall (name gd)]
      in case generateGuide w g (name gd) masterPrompt of
           Inl e \<Rightarrow> (results @ [StatusError (name gd) e], trace)
         | Inr content \<Rightarrow>
             (let filePath = path_join (outputPath g) (name gd @ ''.md'');
                  trace' = trace @ [WriteGuide filePath]
              in case writeFile w filePath of
                   Inl e \<Rightarrow> (results @ [StatusError (name gd) e], trace')
                 | Inr _ \<Rightarrow>
                     (let results' = results @
                            [StatusSuccess (name gd) filePath (guideConfidence confidence (name gd))]
                      in case rateLimit g of
                           Inl e \<Rightarrow> (results' @ [StatusError (name gd) e], trace')
                         | Inr ms \<Rightarrow> (results', trace' @ [Delay ms]))))"

definition generateGuides ::
  "('c, 'p, 'e) world \<Rightarrow> ('c, 'p, 'e) generator \<Rightarrow> rat obj \<Rightarrow> string \<Rightarrow> guide list
     \<Rightarrow> guideResult list \<times> generationEvent list" where
  "generateGuides w g confidence masterPrompt gs =
     foldl (generateStep w g confidence masterPrompt) ([], []) gs"

subsection \<open>The index\<close>

datatype emoji = Green | Yellow | Red

text \<open>
  \<^verbatim>\<open>(confidence * 100).toFixed(0)\<close> rounds to the nearest integer, and the emoji compares
  that integer with 80 and 60. Of each line of the index the model keeps its label, the
  emoji and the percentage.
\<close>

definition toPercent :: "rat \<Rightarrow> int" where
  "toPercent c = round (c * 100)"

definition confidenceEmoji :: "int \<Rightarrow> emoji" where
  "confidenceEmoji percentage =
     (if percentage \<ge> 80 then Green else if percentage \<ge> 60 then Yellow else Red)"

fun successLines :: "guideResult list \<Rightarrow> (string \<times> emoji \<times> int) list" where
  "successLines [] = []"
| "successLines (StatusSuccess gd p c # rs) =
     (gd, confidenceEmoji (toPercent c), toPercent c) # successLines rs"
| "successLines (StatusError gd e # rs) = successLines rs"

fun failedLines :: "guideResult list \<Rightarrow> (string \<times> string) list" where
  "failedLines [] = []"
| "failedLines (StatusSuccess gd p c # rs) = failedLines rs"
| "failedLines (StatusError gd e # rs) = (gd, e) # failedLines rs"

record indexContent =
  successfulGuides :: "(string \<times> emoji \<times> int) list"
  failedGuides :: "(string \<times> string) list"
  qualityMetrics :: "(string \<times> emoji \<times> int) list"

definition createIndexContent ::
  "('c, 'p, 'e) analysisResult \<Rightarrow> guideResult list \<Rightarrow> indexContent" where
  "createIndexContent an results =
     \<lparr>successfulGuides = successLines results,
      failedGuides = failedLines results,
      qualityMetrics =
        map (\<lambda>(domain, confidence). (domain, confidenceEmoji (toPercent confidence), toPercent confidence))
          (metadata_confidence an)\<rparr>"

definition generateIndex ::
  "('c, 'p, 'e) world \<Rightarrow> ('c, 'p, 'e) generator \<Rightarrow> guideResult list \<Rightarrow> unit outcome" where
  "generateIndex w g results = fromCall (writeFile w (path_join (outputPath g) ''README.md''))"

definition masterPromptPath :: string where
  "masterPromptPath = ''prompts/master-prompt.md''"

definition loadMasterPrompt :: "('c, 'p, 'e) world \<Rightarrow> string outcome" where
  "loadMasterPrompt w = fromCall (readFile w masterPromptPath)"

definition sortedGuides :: "rat obj \<Rightarrow> guide list" where
  "sortedGuides confidence = sortBy (compareGuides confidence) guides"

definition generateDocumentation ::
  "('c, 'p, 'e) world \<Rightarrow> ('c, 'p, 'e) generator
     \<Rightarrow> generationEvent list \<times> guideResult list outcome" where
  "generateDocumentation w g =
     (case analysis g of
        None \<Rightarrow> ([], Throw ''Analysis must be completed before generating documentation'')
      | Some an \<Rightarrow>
          (case loadMasterPrompt w of
             Value masterPrompt \<Rightarrow>
               (let confidence = metadata_confidence an;
                    st = generateGuides w g confidence masterPrompt (sortedGuides confidence)
                in (snd st, andThen (generateIndex w g (fst st)) (\<lambda>_. Value (fst st))))
           | Throw e \<Rightarrow> ([], Throw e)
           | Exit n \<Rightarrow> ([], Exit n)))"

text \<open>
  The rate limit the specification describes, as a property of a trace: no generation
  call is issued while an earlier one has not been followed by a delay.
\<close>

fun delayedBetween :: "bool \<Rightarrow> generationEvent list \<Rightarrow> bool" where
  "delayedBetween called [] = True"
| "delayedBetween called (GenerateCall gd # evs) = (\<not> called \<and> delayedBetween True evs)"
| "delayedBetween called (Delay ms # evs) = delayedBetween False evs"
| "delayedBetween called (WriteGuide p # evs) = delayedBetween called evs"

subsection \<open>Validation and the command\<close>

definition validateDocumentation ::
  "('c, 'p, 'e) world \<Rightarrow> ('c, 'p, 'e) generator \<Rightarrow> string list outcome" where
  "validateDocumentation w g =
     andThen (fromCall (newValidators w (config g))) (\<lambda>_.
     andThen (fromCall (validate w AccuracyValidator (outputPath g))) (\<lambda>r1.
     andThen (fromCall (validate w CompletenessValidator (outputPath g))) (\<lambda>r2.
     andThen (fromCall (validate w ConsistencyValidator (outputPath g))) (\<lambda>r3.
       Value [r1, r2, r3]))))"

text \<open>
  \<open>run\<close>: the four stages inside one \<^verbatim>\<open>try\<close>; the \<^verbatim>\<open>catch\<close> ends the process with
  status 1.
\<close>

definition catchExit :: "'a outcome \<Rightarrow> 'a outcome" where
  "catchExit m = (case m of Throw e \<Rightarrow> Exit 1 | Value v \<Rightarrow> Value v | Exit n \<Rightarrow> Exit n)"

definition run :: "('c, 'p, 'e) world \<Rightarrow> ('c, 'p, 'e) generator \<Rightarrow> guideResult list outcome" where
  "run w g =
     catchExit
       (andThen (initialize w g) (\<lambda>g1.
        case analyzeCodebase w g1 of (g2, _, analysed) \<Rightarrow>
        andThen analysed (\<lambda>_.
        andThen (snd (generateDocumentation w g2)) (\<lambda>results.
        andThen (validateDocumentation w g2) (\<lambda>_.
          Value results)))))"

text \<open>
  The status of the process: \<^verbatim>\<open>process.exit(n)\<close> gives \<open>n\<close>; when \<open>run\<close> returns, the
  process ends with status 0.
\<close>

definition exitStatus :: "'a outcome \<Rightarrow> nat" where
  "exitStatus m = (case m of Value v \<Rightarrow> 0 | Throw e \<Rightarrow> 1 | Exit n \<Rightarrow> n)"

text \<open>The generator as \<open>run\<close> hands it to \<open>analyzeCodebase\<close>.\<close>

definition afterInitialize ::
  "('c, 'p, 'e) world \<Rightarrow> ('c, 'p, 'e) generator \<Rightarrow> ('c, 'p, 'e) generator" where
  "afterInitialize w g =
     (case initialize w g of
        Value g1 \<Rightarrow> g1
      | Throw e \<Rightarrow> g
      | Exit n \<Rightarrow> g)"

text \<open>The generator as \<open>run\<close> hands it to \<open>generateDocumentation\<close>.\<close>

definition afterAnalysis ::
  "('c, 'p, 'e) world \<Rightarrow> ('c, 'p, 'e) generator \<Rightarrow> ('c, 'p, 'e) generator" where
  "afterAnalysis w g =
     (case initialize w g of
        Value g1 \<Rightarrow> fst (analyzeCodebase w g1)
      | Throw e \<Rightarrow> g
      | Exit n \<Rightarrow> g)"

text \<open>The analysis that a run has produced by the time it ends, if any.\<close>

definition producedAnalysis ::
  "('c, 'p, 'e) world \<Rightarrow> ('c, 'p, 'e) generator \<Rightarrow> ('c, 'p, 'e) analysisResult option" where
  "producedAnalysis w g =
     (case initialize w g of
        Value g1 \<Rightarrow> analysis (fst (analyzeCodebase w g1))
      | Throw e \<Rightarrow> None
      | Exit n \<Rightarrow> None)"

text \<open>The generation calls of a trace, in the order they were issued.\<close>

fun callsIssued :: "generationEvent list \<Rightarrow> string list" where
  "callsIssued [] = []"
| "callsIssued (GenerateCall gd # evs) = gd # callsIssued evs"
| "callsIssued (WriteGuide p # evs) = callsIssued evs"
| "callsIssued (Delay ms # evs) = callsIssued evs"

text \<open>
  The steps of \<open>run\<close> outside the loop over the guides: reading and parsing the
  configuration, constructing the client, creating the output directory, constructing and
  running the four analyzers, saving the analysis, reading the master prompt, writing the
  index, constructing and running the three validators.
\<close>

definition fatalStepsSucceed :: "('c, 'p, 'e) world \<Rightarrow> ('c, 'p, 'e) generator \<Rightarrow> bool" where
  "fatalStepsSucceed w g =
     (case readFile w (configPath g) of
        Inl e \<Rightarrow> False
      | Inr configData \<Rightarrow>
          (case JSON_parse w configData of
             Inl e \<Rightarrow> False
           | Inr c \<Rightarrow>
               \<not> isl (newAIClient w (ai c))
               \<and> \<not> isl (mkdir w (outputPath g))
               \<and> \<not> isl (newAnalyzers w (Some c))
               \<and> \<not> isl (techStackAnalyze w (projectRoot g))
               \<and> \<not> isl (architectureAnalyze w (projectRoot g))
               \<and> \<not> isl (codeExtract w (projectRoot g))
               \<and> \<not> isl (fileStructureAnalyze w (projectRoot g))
               \<and> \<not> isl (writeFile w (path_join (outputPath g) ''analysis-results.json''))
               \<and> \<not> isl (readFile w masterPromptPath)
               \<and> \<not> isl (writeFile w (path_join (outputPath g) ''README.md''))
               \<and> \<not> isl (newValidators w (Some c))
               \<and> \<not> isl (validate w AccuracyValidator (outputPath g))
               \<and> \<not> isl (validate w CompletenessValidator (outputPath g))
               \<and> \<not> isl (validate w ConsistencyValidator (outputPath g))))"

subsection \<open>Sample runs\<close>

text \<open>
  A world in which every collaborator succeeds: the project has one component file with
  one accepted example, one database file without an example and no detected
  configuration; the configuration file sets a rate limit delay of 100 ms. The variants differ from it in one collaborator each.
\<close>

definition sampleTechStack :: "string techStack" where
  "sampleTechStack = \<lparr>configurations = []\<rparr>"

definition sampleArchitecture :: "string architecture" where
  "sampleArchitecture =
     \<lparr>patterns = [(''components'', [''src/components/Button.tsx'']),
                  (''database'', [''src/db/schema.ts''])]\<rparr>"

definition sampleExamples :: "string codeExamples" where
  "sampleExamples = [(''components'', [''export function Button() {}''])]"

definition calmWorld :: "(string, string, string) world" where
  "calmWorld =
     \<lparr>readFile = (\<lambda>p. Inr ''{}''),
      writeFile = (\<lambda>p. Inr ()),
      mkdir = (\<lambda>p. Inr ()),
      JSON_parse = (\<lambda>text. Inr \<lparr>ai = Some \<lparr>rateLimitDelay = Some 100\<rparr>\<rparr>),
      newAIClient = (\<lambda>c. Inr ()),
      newAnalyzers = (\<lambda>c. Inr ()),
      techStackAnalyze = (\<lambda>r. Inr sampleTechStack),
      architectureAnalyze = (\<lambda>r. Inr sampleArchitecture),
      codeExtract = (\<lambda>r. Inr sampleExamples),
      fileStructureAnalyze = (\<lambda>r. Inr \<lparr>totalFiles = Some 2\<rparr>),
      settleTime = (\<lambda>a. 0),
      generateContent = (\<lambda>guideName masterPrompt. Inr ''# Guide''),
      newValidators = (\<lambda>c. Inr ()),
      validate = (\<lambda>v p. Inr ''ok'')\<rparr>"

definition throttledWorld :: "(string, string, string) world" where
  "throttledWorld =
     calmWorld\<lparr>generateContent :=
       (\<lambda>guideName masterPrompt.
          if guideName = ''authentication-architecture'' then Inl ''429 Too Many Requests''
          else Inr ''# Guide'')\<rparr>"

definition detectorFirstWorld :: "(string, string, string) world" where
  "detectorFirstWorld =
     calmWorld\<lparr>settleTime := (\<lambda>a. if a = ArchitectureAnalyzer then 0 else 1)\<rparr>"

definition promptlessWorld :: "(string, string, string) world" where
  "promptlessWorld =
     calmWorld\<lparr>readFile :=
       (\<lambda>p. if p = masterPromptPath then Inl ''ENOENT: no such file or directory''
            else Inr ''{}'')\<rparr>"

definition sampleGenerator :: "(string, string, string) generator" where
  "sampleGenerator =
     DocumentationGenerator ''/work''
       \<lparr>opt_projectRoot = Some ''/project'', opt_configPath = None, opt_outputPath = Some ''out''\<rparr>"

section \<open>Properties of the scores\<close>

lemma getProp_map_keys:
  "d \<in> set ks \<Longrightarrow> getProp (map (\<lambda>k. (k, f k)) ks) d = Some (f d)"
  unfolding getProp_def by (induction ks) auto

lemma hasPatterns_iff:
  "hasPatterns arch d \<longleftrightarrow> (\<exists>ps. getProp (patterns arch) d = Some ps \<and> ps \<noteq> [])"
  unfolding hasPatterns_def by (auto split: option.splits)

lemma hasExamples_iff:
  "hasExamples ex d \<longleftrightarrow> (\<exists>es. getProp ex d = Some es \<and> es \<noteq> [])"
  unfolding hasExamples_def by (auto split: option.splits)

lemma hasConfig_iff:
  "hasConfig ts d \<longleftrightarrow> (\<exists>c. getProp (configurations ts) d = Some c)"
  unfolding hasConfig_def by auto

lemma scoreBeforeClamp_sum:
  "scoreBeforeClamp ts arch ex d =
     4 / 10 * of_bool (hasPatterns arch d) + 4 / 10 * of_bool (hasExamples ex d)
       + 2 / 10 * of_bool (hasConfig ts d)"
  unfolding scoreBeforeClamp_def Let_def by simp

lemma scoreBeforeClamp_range:
  "0 \<le> scoreBeforeClamp ts arch ex d \<and> scoreBeforeClamp ts arch ex d \<le> 1"
  unfolding scoreBeforeClamp_def Let_def by simp

text \<open>
  Claim C1. For every domain of the fixed list of ten, the confidence score computed by
  \<open>calculateConfidenceScores\<close> is 0.4 if the domain has at least one pattern match, plus
  0.4 if it has at least one accepted example, plus 0.2 if a configuration was detected
  for it, clamped to the interval from 0 to 1.
\<close>

theorem confidence_score_formula:
  assumes "domain \<in> set domains"
  shows "getProp (calculateConfidenceScores ts arch ex) domain =
           Some (clamp01
             (4 / 10 * of_bool (\<exists>ps. getProp (patterns arch) domain = Some ps \<and> ps \<noteq> [])
              + 4 / 10 * of_bool (\<exists>es. getProp ex domain = Some es \<and> es \<noteq> [])
              + 2 / 10 * of_bool (\<exists>c. getProp (configurations ts) domain = Some c)))"
proof -
  have "getProp (calculateConfidenceScores ts arch ex) domain
          = Some (domainConfidence ts arch ex domain)"
    unfolding calculateConfidenceScores_def using assms by (rule getProp_map_keys)
  moreover have "domainConfidence ts arch ex domain
          = clamp01 (scoreBeforeClamp ts arch ex domain)"
    using scoreBeforeClamp_range [of ts arch ex domain]
    unfolding domainConfidence_def clamp01_def by simp
  ultimately show ?thesis
    by (simp add: scoreBeforeClamp_sum hasPatterns_iff hasExamples_iff hasConfig_iff)
qed

theorem confidence_score_formula_witness:
  "''components'' \<in> set domains \<and>
   getProp (calculateConfidenceScores \<lparr>configurations = ([] :: unit obj)\<rparr>
       \<lparr>patterns = [(''components'', [''Button.tsx''])]\<rparr>
       [(''components'', [''export function Button'']), (''state'', [])]) ''components''
     = Some (8 / 10)"
proof -
  have d: "''components'' \<in> set domains" by (simp add: domains_def)
  show ?thesis
    using d confidence_score_formula [OF d, of "\<lparr>configurations = ([] :: unit obj)\<rparr>"
       "\<lparr>patterns = [(''components'', [''Button.tsx''])]\<rparr>"
       "[(''components'', [''export function Button'']), (''state'', [])]"]
    by (simp add: getProp_def clamp01_def)
qed


lemma domainCompleteness_range:
  "0 \<le> domainCompleteness arch ex d \<and> domainCompleteness arch ex d \<le> 1"
  unfolding domainCompleteness_def Let_def by simp

lemma domainCompleteness_zero_iff:
  assumes "patternMatchCount arch d \<ge> 1"
  shows "domainCompleteness arch ex d = 0 \<longleftrightarrow> acceptedExampleCount ex d = 0"
proof -
  let ?ps = "orEmpty (getProp (patterns arch) d)" and ?es = "orEmpty (getProp ex d)"
  have ps: "length ?ps > 0"
    using assms unfolding patternMatchCount_def by (auto simp: Suc_le_eq)
  have dc: "domainCompleteness arch ex d
              = min (of_nat (length ?es) / of_nat (max (length ?ps) 1)) 1"
    unfolding domainCompleteness_def Let_def using ps by simp
  have quot: "((of_nat (length ?es) :: rat) / of_nat (max (length ?ps) 1) = 0) \<longleftrightarrow> length ?es = 0"
    using ps by simp
  have clamp: "(min x 1 = 0) \<longleftrightarrow> x = 0" for x :: rat
    by (simp add: min_def)
  show ?thesis
    unfolding dc acceptedExampleCount_def clamp quot ..
qed

text \<open>
  Claim C2, amended. For every domain that is a key of the pattern map, the completeness
  score is the number of accepted examples divided by the maximum of the number of pattern
  matches and 1, clamped to the interval from 0 to 1, when the domain has at least one
  pattern match, and 0 when it has none; it lies between 0 and 1; and for a domain with at
  least one pattern match it is 0 exactly when there is no accepted example.
\<close>

theorem completeness_score_amended:
  assumes "domain \<in> set (Object_keys (patterns arch))"
  shows "getProp (calculateCompletenessScores arch ex) domain =
           Some (if patternMatchCount arch domain > 0
                 then clamp01 (of_nat (acceptedExampleCount ex domain)
                                / of_nat (max (patternMatchCount arch domain) 1))
                 else 0)
         \<and> 0 \<le> domainCompleteness arch ex domain \<and> domainCompleteness arch ex domain \<le> 1
         \<and> getProp (calculateCompletenessScores arch ex) domain = Some (domainCompleteness arch ex domain)
         \<and> (patternMatchCount arch domain \<ge> 1 \<longrightarrow>
              (domainCompleteness arch ex domain = 0 \<longleftrightarrow> acceptedExampleCount ex domain = 0))"
proof -
  have look: "getProp (calculateCompletenessScores arch ex) domain
          = Some (domainCompleteness arch ex domain)"
    unfolding calculateCompletenessScores_def using assms by (rule getProp_map_keys)
  have nonneg: "(0::rat) \<le> of_nat (acceptedExampleCount ex domain)
                  / of_nat (max (patternMatchCount arch domain) 1)"
    by simp
  have form: "domainCompleteness arch ex domain =
          (if patternMatchCount arch domain > 0
           then clamp01 (of_nat (acceptedExampleCount ex domain)
                          / of_nat (max (patternMatchCount arch domain) 1))
           else 0)"
    using nonneg
    unfolding domainCompleteness_def patternMatchCount_def acceptedExampleCount_def clamp01_def Let_def
    by (simp add: max_def min_def)
  show ?thesis
    using look form domainCompleteness_range [of arch ex domain]
      domainCompleteness_zero_iff [of arch domain ex]
    by simp
qed

theorem completeness_score_amended_witness:
  "''state'' \<in> set (Object_keys (patterns \<lparr>patterns = [(''state'', [''store.ts'', ''hooks.ts''])]\<rparr>)) \<and>
   getProp (calculateCompletenessScores \<lparr>patterns = [(''state'', [''store.ts'', ''hooks.ts''])]\<rparr>
      [(''state'', [''const useStore = create()''])]) ''state'' = Some (1 / 2)"
proof -
  have k: "''state'' \<in> set (Object_keys (patterns \<lparr>patterns = [(''state'', [''store.ts'', ''hooks.ts''])]\<rparr>))"
    by (simp add: Object_keys_def)
  show ?thesis
    using k completeness_score_amended [OF k, of "[(''state'', [''const useStore = create()''])]"]
    by (simp add: patternMatchCount_def acceptedExampleCount_def getProp_def orEmpty_def clamp01_def)
qed

text \<open>
  The unamended formula fails for a domain with no pattern match and one example: the
  guard on \<^verbatim>\<open>patterns.length > 0\<close> yields 0 where the quotient clamps to 1.
\<close>

theorem completeness_formula_counterexample:
  "getProp (calculateCompletenessScores \<lparr>patterns = [(''authentication'', ([] :: string list))]\<rparr>
      [(''authentication'', [''function login() {}''])]) ''authentication'' = Some 0
   \<and> clamp01 (of_nat (acceptedExampleCount [(''authentication'', [''function login() {}''])] ''authentication'')
        / of_nat (max (patternMatchCount \<lparr>patterns = [(''authentication'', ([] :: string list))]\<rparr> ''authentication'') 1))
      = 1"
  by (simp add: calculateCompletenessScores_def Object_keys_def domainCompleteness_def
      getProp_def orEmpty_def clamp01_def acceptedExampleCount_def patternMatchCount_def)

lemma domainConfidence_raw: "domainConfidence ts arch ex d = scoreBeforeClamp ts arch ex d"
  using scoreBeforeClamp_range [of ts arch ex d] unfolding domainConfidence_def by simp

text \<open>
  Claim C7. For a fixed domain the confidence score does not decrease when any of the
  three predicates (pattern matches, accepted examples, detected configuration) goes from
  false to true and none goes from true to false.
\<close>

theorem confidence_monotone:
  assumes "domain \<in> set domains"
    and "hasPatterns arch domain \<longrightarrow> hasPatterns arch' domain"
    and "hasExamples ex domain \<longrightarrow> hasExamples ex' domain"
    and "hasConfig ts domain \<longrightarrow> hasConfig ts' domain"
  shows "getProp (calculateConfidenceScores ts arch ex) domain = Some (domainConfidence ts arch ex domain)
         \<and> getProp (calculateConfidenceScores ts' arch' ex') domain = Some (domainConfidence ts' arch' ex' domain)
         \<and> domainConfidence ts arch ex domain \<le> domainConfidence ts' arch' ex' domain"
proof -
  have "scoreBeforeClamp ts arch ex domain \<le> scoreBeforeClamp ts' arch' ex' domain"
    using assms(2-4) unfolding scoreBeforeClamp_sum
    by (cases "hasPatterns arch domain"; cases "hasExamples ex domain"; cases "hasConfig ts domain") simp_all
  then show ?thesis
    using assms(1) by (simp add: domainConfidence_raw calculateConfidenceScores_def getProp_map_keys)
qed

theorem confidence_monotone_witness:
  "''database'' \<in> set domains
   \<and> getProp (calculateConfidenceScores \<lparr>configurations = ([] :: string obj)\<rparr>
          \<lparr>patterns = [(''database'', [''db/schema.ts''])]\<rparr> ([] :: string codeExamples)) ''database''
       = Some (4 / 10)
   \<and> getProp (calculateConfidenceScores \<lparr>configurations = [(''database'', ''drizzle.config.ts'')]\<rparr>
          \<lparr>patterns = [(''database'', [''db/schema.ts''])]\<rparr> ([] :: string codeExamples)) ''database''
       = Some (6 / 10)"
proof -
  have d: "''database'' \<in> set domains" by (simp add: domains_def)
  have p: "hasPatterns \<lparr>patterns = [(''database'', [''db/schema.ts''])]\<rparr> ''database''
             \<longrightarrow> hasPatterns \<lparr>patterns = [(''database'', [''db/schema.ts''])]\<rparr> ''database''" by simp
  have e: "hasExamples ([] :: string codeExamples) ''database''
             \<longrightarrow> hasExamples ([] :: string codeExamples) ''database''" by simp
  have c: "hasConfig \<lparr>configurations = ([] :: string obj)\<rparr> ''database''
             \<longrightarrow> hasConfig \<lparr>configurations = [(''database'', ''drizzle.config.ts'')]\<rparr> ''database''"
    by (simp add: hasConfig_def getProp_def)
  show ?thesis
    using d confidence_monotone [OF d p e c]
    by (simp add: domainConfidence_def scoreBeforeClamp_def hasPatterns_def hasExamples_def
        hasConfig_def getProp_def)
qed


lemma hasPatterns_count: "hasPatterns arch d \<longleftrightarrow> patternMatchCount arch d > 0"
  unfolding hasPatterns_def patternMatchCount_def orEmpty_def by (simp split: option.splits)

lemma hasExamples_count: "hasExamples ex d \<longleftrightarrow> acceptedExampleCount ex d > 0"
  unfolding hasExamples_def acceptedExampleCount_def orEmpty_def by (simp split: option.splits)

lemma domainCompleteness_counts:
  "domainCompleteness arch ex d =
     (if patternMatchCount arch d > 0
      then min (of_nat (acceptedExampleCount ex d) / of_nat (max (patternMatchCount arch d) 1)) 1
      else 0)"
  unfolding domainCompleteness_def patternMatchCount_def acceptedExampleCount_def Let_def by simp

text \<open>
  Claim C8. Scoring is deterministic: the two score objects are functions of the detector
  outputs alone, so identical outputs give identical scores. More precisely the scores
  depend only on the keys of the pattern map, the counts of patterns and examples per
  domain, and the presence of a configuration per domain.
\<close>

theorem scoring_deterministic:
  assumes "Object_keys (patterns arch) = Object_keys (patterns arch')"
    and "\<forall>d. patternMatchCount arch d = patternMatchCount arch' d"
    and "\<forall>d. acceptedExampleCount ex d = acceptedExampleCount ex' d"
    and "\<forall>d. hasConfig ts d = hasConfig ts' d"
  shows "calculateConfidenceScores ts arch ex = calculateConfidenceScores ts' arch' ex'
         \<and> calculateCompletenessScores arch ex = calculateCompletenessScores arch' ex'"
proof -
  have conf: "domainConfidence ts arch ex d = domainConfidence ts' arch' ex' d" for d
    unfolding domainConfidence_def scoreBeforeClamp_def hasPatterns_count hasExamples_count
    using assms(2-4) by simp
  have compl: "domainCompleteness arch ex d = domainCompleteness arch' ex' d" for d
    unfolding domainCompleteness_counts using assms(2,3) by simp
  show ?thesis
    unfolding calculateConfidenceScores_def calculateCompletenessScores_def
    using conf compl assms(1) by simp
qed

theorem scoring_deterministic_witness:
  "calculateConfidenceScores \<lparr>configurations = [(''testing'', ''jest.config.js'')]\<rparr>
      \<lparr>patterns = [(''testing'', [''a.test.ts''])]\<rparr> [(''testing'', [''it(...)''])]
     = calculateConfidenceScores \<lparr>configurations = [(''testing'', ''vitest.config.ts'')]\<rparr>
      \<lparr>patterns = [(''testing'', [''b.spec.ts''])]\<rparr> [(''testing'', [''test(...)''])]
   \<and> calculateCompletenessScores \<lparr>patterns = [(''testing'', [''a.test.ts''])]\<rparr> [(''testing'', [''it(...)''])]
     = calculateCompletenessScores \<lparr>patterns = [(''testing'', [''b.spec.ts''])]\<rparr> [(''testing'', [''test(...)''])]
   \<and> getProp (calculateConfidenceScores \<lparr>configurations = [(''testing'', ''jest.config.js'')]\<rparr>
      \<lparr>patterns = [(''testing'', [''a.test.ts''])]\<rparr> [(''testing'', [''it(...)''])]) ''testing'' = Some 1"
proof -
  have k: "Object_keys (patterns \<lparr>patterns = [(''testing'', [''a.test.ts''])]\<rparr>)
             = Object_keys (patterns \<lparr>patterns = [(''testing'', [''b.spec.ts''])]\<rparr>)"
    by (simp add: Object_keys_def)
  have p: "\<forall>d. patternMatchCount \<lparr>patterns = [(''testing'', [''a.test.ts''])]\<rparr> d
             = patternMatchCount \<lparr>patterns = [(''testing'', [''b.spec.ts''])]\<rparr> d"
    by (simp add: patternMatchCount_def getProp_def orEmpty_def)
  have e: "\<forall>d. acceptedExampleCount [(''testing'', [''it(...)''])] d
             = acceptedExampleCount [(''testing'', [''test(...)''])] d"
    by (simp add: acceptedExampleCount_def getProp_def orEmpty_def)
  have c: "\<forall>d. hasConfig \<lparr>configurations = [(''testing'', ''jest.config.js'')]\<rparr> d
             = hasConfig \<lparr>configurations = [(''testing'', ''vitest.config.ts'')]\<rparr> d"
    by (simp add: hasConfig_def getProp_def)
  have v: "getProp (calculateConfidenceScores \<lparr>configurations = [(''testing'', ''jest.config.js'')]\<rparr>
      \<lparr>patterns = [(''testing'', [''a.test.ts''])]\<rparr> [(''testing'', [''it(...)''])]) ''testing'' = Some 1"
    by (simp add: calculateConfidenceScores_def domains_def getProp_def domainConfidence_def
        scoreBeforeClamp_def hasPatterns_def hasExamples_def hasConfig_def)
  show ?thesis
    using scoring_deterministic [OF k p e c] v by simp
qed

text \<open>
  Claim C10. In exact arithmetic every confidence score is one of 0, 0.2, 0.4, 0.6, 0.8
  and 1, for every domain and all detector outputs; the sum of the three weighted terms
  never exceeds 1, so \<^verbatim>\<open>Math.min(score, 1.0)\<close> returns the sum itself.
\<close>

theorem confidence_values:
  "snd ` set (calculateConfidenceScores ts arch ex) \<subseteq> {0, 2 / 10, 4 / 10, 6 / 10, 8 / 10, 1}
   \<and> map fst (calculateConfidenceScores ts arch ex) = domains
   \<and> (\<forall>domain. scoreBeforeClamp ts arch ex domain \<le> 1
         \<and> domainConfidence ts arch ex domain = scoreBeforeClamp ts arch ex domain
         \<and> domainConfidence ts arch ex domain \<in> {0, 2 / 10, 4 / 10, 6 / 10, 8 / 10, 1})"
proof -
  let ?S = "{0, 2 / 10, 4 / 10, 6 / 10, 8 / 10, 1} :: rat set"
  have vals: "domainConfidence ts arch ex d \<in> ?S" for d
    unfolding domainConfidence_raw scoreBeforeClamp_def Let_def by simp
  have img: "snd ` set (calculateConfidenceScores ts arch ex)
               = (\<lambda>d. domainConfidence ts arch ex d) ` set domains"
    unfolding calculateConfidenceScores_def by (simp add: image_image)
  have keys: "map fst (calculateConfidenceScores ts arch ex) = domains"
    unfolding calculateConfidenceScores_def by (simp add: comp_def)
  have sub: "snd ` set (calculateConfidenceScores ts arch ex) \<subseteq> ?S"
    unfolding img using vals by blast
  have each: "scoreBeforeClamp ts arch ex d \<le> 1
         \<and> domainConfidence ts arch ex d = scoreBeforeClamp ts arch ex d
         \<and> domainConfidence ts arch ex d \<in> ?S" for d
    using scoreBeforeClamp_range [of ts arch ex d] domainConfidence_raw [of ts arch ex d] vals [of d]
    by blast
  show ?thesis
    using sub keys each by blast
qed

theorem confidence_values_witness:
  "calculateConfidenceScores \<lparr>configurations = [(''deployment'', ''Dockerfile'')]\<rparr>
      \<lparr>patterns = [(''deployment'', [''deploy.yml'']), (''testing'', [''a.test.ts''])]\<rparr>
      [(''deployment'', [''FROM node'']), (''testing'', [])]
    = [(''authentication'', 0), (''components'', 0), (''state'', 0), (''backgroundJobs'', 0),
       (''fileStorage'', 0), (''database'', 0), (''errorHandling'', 0), (''testing'', 4 / 10),
       (''integration'', 0), (''deployment'', 1)]
   \<and> scoreBeforeClamp \<lparr>configurations = [(''deployment'', ''Dockerfile'')]\<rparr>
      \<lparr>patterns = [(''deployment'', [''deploy.yml'']), (''testing'', [''a.test.ts''])]\<rparr>
      [(''deployment'', [''FROM node'']), (''testing'', [])] ''deployment'' = 1"
  using confidence_values [of "\<lparr>configurations = [(''deployment'', ''Dockerfile'')]\<rparr>"
      "\<lparr>patterns = [(''deployment'', [''deploy.yml'']), (''testing'', [''a.test.ts''])]\<rparr>"
      "[(''deployment'', [''FROM node'']), (''testing'', [])]"]
  by (simp add: calculateConfidenceScores_def domains_def getProp_def domainConfidence_def
        scoreBeforeClamp_def hasPatterns_def hasExamples_def hasConfig_def)

section \<open>Properties of the analysis stage\<close>

lemma not_isl_iff: "\<not> isl r \<longleftrightarrow> (\<exists>v. r = Inr v)"
  by (cases r) auto

lemma andThen_Value_iff:
  "andThen m f = Value v \<longleftrightarrow> (\<exists>x. m = Value x \<and> f x = Value v)"
  unfolding andThen_def by (cases m) auto

lemma fromCall_Value_iff: "fromCall r = Value v \<longleftrightarrow> r = Inr v"
  unfolding fromCall_def by (cases r) auto

lemma analyzeCodebase_Value_iff:
  "snd (snd (analyzeCodebase w g)) = Value an \<longleftrightarrow>
     (\<not> isl (newAnalyzers w (config g))
      \<and> (\<exists>ts arch ex fs. techStackAnalyze w (projectRoot g) = Inr ts
            \<and> architectureAnalyze w (projectRoot g) = Inr arch
            \<and> codeExtract w (projectRoot g) = Inr ex
            \<and> fileStructureAnalyze w (projectRoot g) = Inr fs
            \<and> an = compileAnalysis ts arch ex fs)
      \<and> \<not> isl (writeFile w (path_join (outputPath g) ''analysis-results.json'')))"
  unfolding analyzeCodebase_def saveAnalysisResults_def Let_def
  by (auto simp: andThen_Value_iff fromCall_Value_iff not_isl_iff split: sum.splits)

lemma awaitAll_prefix: "\<exists>k. fst (awaitAll rej xs) = map Settled (take k xs)"
proof (induction xs)
  case Nil
  show ?case by simp
next
  case (Cons a xs)
  then obtain k where k: "fst (awaitAll rej xs) = map Settled (take k xs)" by blast
  show ?case
  proof (cases "rej a")
    case None
    then have "fst (awaitAll rej (a # xs)) = map Settled (take (Suc k) (a # xs))"
      using k by simp
    then show ?thesis by blast
  next
    case (Some e)
    then have "fst (awaitAll rej (a # xs)) = map Settled (take 1 (a # xs))"
      by simp
    then show ?thesis by blast
  qed
qed

lemma awaitAll_resolved:
  "(\<forall>a \<in> set xs. rej a = None) \<Longrightarrow> fst (awaitAll rej xs) = map Settled xs"
  by (induction xs) simp_all

lemma set_settleOrder: "set (settleOrder w) = set analyzers"
  unfolding settleOrder_def by simp

lemma analyzeCodebase_trace:
  "\<not> isl (newAnalyzers w (config g)) \<Longrightarrow>
     fst (snd (analyzeCodebase w g)) =
       map (\<lambda>a. Invoked a (projectRoot g)) analyzers
         @ fst (awaitAll (rejection w (projectRoot g)) (settleOrder w))"
  unfolding analyzeCodebase_def Let_def
  by (auto simp: not_isl_iff split: sum.splits)

lemma not_staged: "\<not> stagedBehind False (map (\<lambda>a. Invoked a r) analyzers @ evs)"
  unfolding analyzers_def by simp

lemma rejection_none:
  assumes "techStackAnalyze w r = Inr ts" "architectureAnalyze w r = Inr arch"
    "codeExtract w r = Inr ex" "fileStructureAnalyze w r = Inr fs"
  shows "rejection w r a = None"
  unfolding rejection_def using assms by (cases a) simp_all

text \<open>
  Claim C3, amended. Code-example extraction is not staged behind pattern detection:
  \<open>analyzeCodebase\<close> invokes the four analyzers (technology stack, architecture, code
  extractor, file structure) in one stage, each with the project root as its only argument
  and before any of them has settled; the examples are what the extractor returns for the
  project root and do not change with the output of the pattern detector; and the scores
  are computed from the three outputs once all four analyzers have resolved.
\<close>

theorem extraction_not_staged:
  assumes "\<not> isl (newAnalyzers w (config g))"
  shows "(\<exists>k. fst (snd (analyzeCodebase w g)) =
             map (\<lambda>a. Invoked a (projectRoot g)) analyzers @ map Settled (take k (settleOrder w)))
         \<and> \<not> stagedBehind False (fst (snd (analyzeCodebase w g)))
         \<and> (\<forall>an. snd (snd (analyzeCodebase w g)) = Value an \<longrightarrow>
               fst (snd (analyzeCodebase w g)) =
                 map (\<lambda>a. Invoked a (projectRoot g)) analyzers @ map Settled (settleOrder w)
               \<and> set (settleOrder w) = set analyzers
               \<and> codeExtract w (projectRoot g) = Inr (examples an)
               \<and> architectureAnalyze w (projectRoot g) = Inr (architecture an)
               \<and> techStackAnalyze w (projectRoot g) = Inr (techStack an)
               \<and> metadata_confidence an =
                   calculateConfidenceScores (techStack an) (architecture an) (examples an)
               \<and> metadata_completeness an =
                   calculateCompletenessScores (architecture an) (examples an))
         \<and> (\<forall>detector an an'.
               snd (snd (analyzeCodebase w g)) = Value an
               \<and> snd (snd (analyzeCodebase (w\<lparr>architectureAnalyze := detector\<rparr>) g)) = Value an'
               \<longrightarrow> examples an' = examples an)"
proof (intro conjI allI impI)
  note tr = analyzeCodebase_trace [OF assms]
  show "\<exists>k. fst (snd (analyzeCodebase w g)) =
             map (\<lambda>a. Invoked a (projectRoot g)) analyzers @ map Settled (take k (settleOrder w))"
    unfolding tr using awaitAll_prefix [of "rejection w (projectRoot g)" "settleOrder w"] by auto
  show "\<not> stagedBehind False (fst (snd (analyzeCodebase w g)))"
    unfolding tr by (rule not_staged)
  {
    fix an
    assume an: "snd (snd (analyzeCodebase w g)) = Value an"
    then obtain ts arch ex fs where out: "techStackAnalyze w (projectRoot g) = Inr ts"
      "architectureAnalyze w (projectRoot g) = Inr arch"
      "codeExtract w (projectRoot g) = Inr ex"
      "fileStructureAnalyze w (projectRoot g) = Inr fs"
      and comp: "an = compileAnalysis ts arch ex fs"
      unfolding analyzeCodebase_Value_iff by blast
    have "\<forall>a \<in> set (settleOrder w). rejection w (projectRoot g) a = None"
      using rejection_none [OF out] by blast
    then show "fst (snd (analyzeCodebase w g)) =
                 map (\<lambda>a. Invoked a (projectRoot g)) analyzers @ map Settled (settleOrder w)"
      unfolding tr by (simp add: awaitAll_resolved)
    show "set (settleOrder w) = set analyzers" by (rule set_settleOrder)
    show "codeExtract w (projectRoot g) = Inr (examples an)"
      using out comp by (simp add: compileAnalysis_def)
    show "architectureAnalyze w (projectRoot g) = Inr (architecture an)"
      using out comp by (simp add: compileAnalysis_def)
    show "techStackAnalyze w (projectRoot g) = Inr (techStack an)"
      using out comp by (simp add: compileAnalysis_def)
    show "metadata_confidence an =
            calculateConfidenceScores (techStack an) (architecture an) (examples an)"
      using comp by (simp add: compileAnalysis_def)
    show "metadata_completeness an =
            calculateCompletenessScores (architecture an) (examples an)"
      using comp by (simp add: compileAnalysis_def)
  }
  fix detector an an'
  assume both: "snd (snd (analyzeCodebase w g)) = Value an
     \<and> snd (snd (analyzeCodebase (w\<lparr>architectureAnalyze := detector\<rparr>) g)) = Value an'"
  then show "examples an' = examples an"
    unfolding analyzeCodebase_Value_iff by (auto simp: compileAnalysis_def)
qed

theorem extraction_not_staged_witness:
  "\<not> isl (newAnalyzers calmWorld (config (afterInitialize calmWorld sampleGenerator)))
   \<and> fst (snd (analyzeCodebase calmWorld (afterInitialize calmWorld sampleGenerator))) =
       [Invoked TechStackAnalyzer ''/project'', Invoked ArchitectureAnalyzer ''/project'',
        Invoked CodeExtractor ''/project'', Invoked FileStructureAnalyzer ''/project'',
        Settled TechStackAnalyzer, Settled ArchitectureAnalyzer, Settled CodeExtractor,
        Settled FileStructureAnalyzer]
   \<and> \<not> stagedBehind False
        (fst (snd (analyzeCodebase calmWorld (afterInitialize calmWorld sampleGenerator))))"
proof -
  have c: "\<not> isl (newAnalyzers calmWorld (config (afterInitialize calmWorld sampleGenerator)))"
    by code_simp
  have t: "fst (snd (analyzeCodebase calmWorld (afterInitialize calmWorld sampleGenerator))) =
       [Invoked TechStackAnalyzer ''/project'', Invoked ArchitectureAnalyzer ''/project'',
        Invoked CodeExtractor ''/project'', Invoked FileStructureAnalyzer ''/project'',
        Settled TechStackAnalyzer, Settled ArchitectureAnalyzer, Settled CodeExtractor,
        Settled FileStructureAnalyzer]"
    by code_simp
  show ?thesis
    using extraction_not_staged [OF c] c t by simp
qed

text \<open>
  The staging fails even when the pattern detector is the first analyzer to settle: the
  extractor has been invoked, with the project root alone, before that.
\<close>

theorem extraction_staged_counterexample:
  "fst (snd (analyzeCodebase detectorFirstWorld (afterInitialize detectorFirstWorld sampleGenerator))) =
       [Invoked TechStackAnalyzer ''/project'', Invoked ArchitectureAnalyzer ''/project'',
        Invoked CodeExtractor ''/project'', Invoked FileStructureAnalyzer ''/project'',
        Settled ArchitectureAnalyzer, Settled TechStackAnalyzer, Settled CodeExtractor,
        Settled FileStructureAnalyzer]
   \<and> \<not> stagedBehind False
        (fst (snd (analyzeCodebase detectorFirstWorld (afterInitialize detectorFirstWorld sampleGenerator))))"
  by code_simp

section \<open>Properties of the generation loop\<close>

lemma generateStep_append:
  "generateStep w g conf mp st gd =
     (fst st @ fst (generateStep w g conf mp ([], []) gd),
      snd st @ snd (generateStep w g conf mp ([], []) gd))"
  unfolding generateStep_def Let_def by (simp split: sum.splits)

lemma foldl_generateStep:
  "foldl (generateStep w g conf mp) st gs =
     (fst st @ concat (map (\<lambda>gd. fst (generateStep w g conf mp ([], []) gd)) gs),
      snd st @ concat (map (\<lambda>gd. snd (generateStep w g conf mp ([], []) gd)) gs))"
proof (induction gs arbitrary: st)
  case Nil
  show ?case by simp
next
  case (Cons gd gs)
  show ?case
    by (simp add: Cons.IH [of "generateStep w g conf mp st gd"])
      (subst generateStep_append, simp)+
qed

lemma generateGuides_results:
  "fst (generateGuides w g conf mp gs) =
     concat (map (\<lambda>gd. fst (generateStep w g conf mp ([], []) gd)) gs)"
  unfolding generateGuides_def by (simp add: foldl_generateStep)

lemma generateGuides_trace:
  "snd (generateGuides w g conf mp gs) =
     concat (map (\<lambda>gd. snd (generateStep w g conf mp ([], []) gd)) gs)"
  unfolding generateGuides_def by (simp add: foldl_generateStep)

lemma callsIssued_append: "callsIssued (xs @ ys) = callsIssued xs @ callsIssued ys"
  by (induction xs rule: callsIssued.induct) simp_all

lemma callsIssued_step:
  "callsIssued (snd (generateStep w g conf mp ([], []) gd)) = [name gd]"
  unfolding generateStep_def Let_def by (simp split: sum.splits)

lemma callsIssued_steps:
  "callsIssued (concat (map (\<lambda>gd. snd (generateStep w g conf mp ([], []) gd)) gs)) = map name gs"
  by (induction gs) (simp_all add: callsIssued_append callsIssued_step)

lemma step_failure_recorded:
  "generateGuide w g (name gd) mp = Inl e \<Longrightarrow>
     fst (generateStep w g conf mp ([], []) gd) = [StatusError (name gd) e]"
  unfolding generateStep_def Let_def by simp

lemma step_success_recorded:
  "generateGuide w g (name gd) mp = Inr content \<Longrightarrow>
   writeFile w (path_join (outputPath g) (name gd @ ''.md'')) = Inr () \<Longrightarrow>
     StatusSuccess (name gd) (path_join (outputPath g) (name gd @ ''.md''))
        (guideConfidence conf (name gd))
       \<in> set (fst (generateStep w g conf mp ([], []) gd))"
  unfolding generateStep_def Let_def by (simp split: sum.splits)

text \<open>
  Claim C5. For every sequence of guides, the loop issues one generation call per guide,
  in the order of the sequence, whatever the outcomes of the earlier calls; a guide whose
  call fails is recorded as an error result with the message of the failure; and a guide
  whose call and file write succeed is recorded as a success, whether or not other guides
  of the sequence failed.
\<close>

theorem failed_guide_does_not_block:
  "callsIssued (snd (generateGuides w g conf mp gs)) = map name gs
   \<and> (\<forall>gd \<in> set gs. \<forall>e. generateGuide w g (name gd) mp = Inl e \<longrightarrow>
          StatusError (name gd) e \<in> set (fst (generateGuides w g conf mp gs)))
   \<and> (\<forall>gd \<in> set gs. \<forall>content.
          generateGuide w g (name gd) mp = Inr content
          \<and> writeFile w (path_join (outputPath g) (name gd @ ''.md'')) = Inr () \<longrightarrow>
          StatusSuccess (name gd) (path_join (outputPath g) (name gd @ ''.md''))
             (guideConfidence conf (name gd))
            \<in> set (fst (generateGuides w g conf mp gs)))"
proof (intro conjI ballI allI impI)
  show "callsIssued (snd (generateGuides w g conf mp gs)) = map name gs"
    by (simp add: generateGuides_trace callsIssued_steps)
next
  fix gd e
  assume "gd \<in> set gs" and "generateGuide w g (name gd) mp = Inl e"
  then show "StatusError (name gd) e \<in> set (fst (generateGuides w g conf mp gs))"
    using step_failure_recorded [of w g gd mp e conf]
    by (auto simp: generateGuides_results intro!: bexI [of _ gd])
next
  fix gd content
  assume "gd \<in> set gs"
    and "generateGuide w g (name gd) mp = Inr content
         \<and> writeFile w (path_join (outputPath g) (name gd @ ''.md'')) = Inr ()"
  then show "StatusSuccess (name gd) (path_join (outputPath g) (name gd @ ''.md''))
             (guideConfidence conf (name gd))
            \<in> set (fst (generateGuides w g conf mp gs))"
    using step_success_recorded [of w g gd mp content conf]
    by (auto simp: generateGuides_results intro!: bexI [of _ gd])
qed

theorem failed_guide_does_not_block_witness:
  "StatusError ''authentication-architecture'' ''429 Too Many Requests''
     \<in> set (fst (generateGuides throttledWorld (afterAnalysis throttledWorld sampleGenerator)
                  [] ''{}'' guides))
   \<and> StatusSuccess ''component-architecture'' ''out/component-architecture.md'' 0
     \<in> set (fst (generateGuides throttledWorld (afterAnalysis throttledWorld sampleGenerator)
                  [] ''{}'' guides))
   \<and> callsIssued (snd (generateGuides throttledWorld (afterAnalysis throttledWorld sampleGenerator)
                  [] ''{}'' guides)) = map name guides"
proof -
  let ?g = "afterAnalysis throttledWorld sampleGenerator"
  let ?a = "\<lparr>name = ''authentication-architecture'', priority = 1\<rparr>"
  let ?c = "\<lparr>name = ''component-architecture'', priority = 1\<rparr>"
  have mem: "?a \<in> set guides" "?c \<in> set guides"
    by (simp_all add: guides_def)
  have fails: "generateGuide throttledWorld ?g (name ?a) ''{}'' = Inl ''429 Too Many Requests''"
    by code_simp
  have succeeds: "generateGuide throttledWorld ?g (name ?c) ''{}'' = Inr ''# Guide''
      \<and> writeFile throttledWorld (path_join (outputPath ?g) (name ?c @ ''.md'')) = Inr ()"
    by code_simp
  have path: "path_join (outputPath ?g) (name ?c @ ''.md'') = ''out/component-architecture.md''"
    by code_simp
  have conf: "guideConfidence [] (name ?c) = 0"
    by (simp add: guideConfidence_def getProp_def)
  show ?thesis
    using failed_guide_does_not_block [of throttledWorld ?g "[]" "''{}''" guides]
      mem fails succeeds path conf
    by (metis guide.select_convs(1))
qed

text \<open>
  After a guide that was generated and written the loop does wait: when every guide of
  the sequence succeeds, a delay separates any two consecutive generation calls.
\<close>

lemma step_trace_success:
  assumes "\<not> isl (generateGuide w g (name gd) mp)"
    and "\<not> isl (writeFile w (path_join (outputPath g) (name gd @ ''.md'')))"
    and "rateLimit g = Inr ms"
  shows "snd (generateStep w g conf mp ([], []) gd) =
           [GenerateCall (name gd), WriteGuide (path_join (outputPath g) (name gd @ ''.md'')), Delay ms]"
  using assms unfolding generateStep_def Let_def
  by (auto simp: not_isl_iff)

lemma delay_after_every_success:
  assumes "\<forall>gd \<in> set gs. \<not> isl (generateGuide w g (name gd) mp)
              \<and> \<not> isl (writeFile w (path_join (outputPath g) (name gd @ ''.md'')))"
    and "rateLimit g = Inr ms"
  shows "delayedBetween False (snd (generateGuides w g conf mp gs))"
  using assms(1) unfolding generateGuides_trace
  by (induction gs) (simp_all add: step_trace_success [OF _ _ assms(2)])

text \<open>
  Claim C6 asks for a delay between every two consecutive generation calls. The delay is
  the last statement of the \<^verbatim>\<open>try\<close> block, so it is skipped when the call (or the write
  of the guide) throws: in the run below the first call is rejected and the second call
  follows it with no delay in between.
\<close>

theorem no_delay_after_failed_call:
  "take 2 (fst (generateDocumentation throttledWorld (afterAnalysis throttledWorld sampleGenerator)))
     = [GenerateCall ''authentication-architecture'', GenerateCall ''component-architecture'']
   \<and> \<not> delayedBetween False
         (fst (generateDocumentation throttledWorld (afterAnalysis throttledWorld sampleGenerator)))"
  by code_simp

lemma getProp_map_absent:
  "d \<notin> set ks \<Longrightarrow> getProp (map (\<lambda>k. (k, f k)) ks) d = None"
  unfolding getProp_def by (induction ks) auto

lemma guideConfidence_absent:
  "focusArea n \<notin> set domains \<Longrightarrow> guideConfidence (calculateConfidenceScores ts arch ex) n = 0"
  unfolding guideConfidence_def calculateConfidenceScores_def
  by (simp add: getProp_map_absent)

lemma step_success_confidence:
  "StatusSuccess n p c \<in> set (fst (generateStep w g conf mp ([], []) gd)) \<Longrightarrow>
     c = guideConfidence conf n"
  unfolding generateStep_def Let_def by (auto split: sum.splits)

lemma generateGuides_success_confidence:
  "StatusSuccess n p c \<in> set (fst (generateGuides w g conf mp gs)) \<Longrightarrow>
     c = guideConfidence conf n"
  by (auto simp: generateGuides_results dest: step_success_confidence)

lemma successLines_origin:
  "(n, e, pc) \<in> set (successLines rs) \<Longrightarrow>
     \<exists>p c. StatusSuccess n p c \<in> set rs \<and> pc = toPercent c \<and> e = confidenceEmoji (toPercent c)"
  by (induction rs rule: successLines.induct) auto

lemma generateDocumentation_results:
  assumes "analysis g = Some an" and "snd (generateDocumentation w g) = Value results"
  shows "\<exists>mp. results = fst (generateGuides w g (metadata_confidence an) mp
                             (sortedGuides (metadata_confidence an)))"
  using assms
  unfolding generateDocumentation_def loadMasterPrompt_def generateIndex_def fromCall_def
    andThen_def Let_def
  by (auto split: sum.splits outcome.splits)

lemma mismatched_names:
  "filter (\<lambda>n. focusArea n \<notin> set domains) (map name guides) =
     [''component-architecture'', ''state-management-architecture'',
      ''background-jobs-architecture'', ''file-storage-architecture'',
      ''error-handling-architecture'']"
  by code_simp

text \<open>
  Claim C9. Five guide names, with the suffix \<^verbatim>\<open>-architecture\<close> removed, are not keys of
  the confidence object (component, state-management, background-jobs, file-storage and
  error-handling). For each of them the confidence read by the comparator of the sort is
  0, every success result of the guide carries confidence 0, and its line in the index
  shows 0 percent, whatever the detector outputs are.
\<close>

theorem mismatched_guide_confidence_zero:
  assumes "gd \<in> set guides" and "focusArea (name gd) \<notin> set domains"
    and "analysis g = Some an"
    and "metadata_confidence an = calculateConfidenceScores ts arch ex"
    and "snd (generateDocumentation w g) = Value results"
  shows "filter (\<lambda>n. focusArea n \<notin> set domains) (map name guides) =
           [''component-architecture'', ''state-management-architecture'',
            ''background-jobs-architecture'', ''file-storage-architecture'',
            ''error-handling-architecture'']
         \<and> guideConfidence (metadata_confidence an) (name gd) = 0
         \<and> (\<forall>p c. StatusSuccess (name gd) p c \<in> set results \<longrightarrow> c = 0)
         \<and> (\<forall>e pc. (name gd, e, pc) \<in> set (successfulGuides (createIndexContent an results))
                \<longrightarrow> pc = 0 \<and> e = Red)"
proof -
  have zero: "guideConfidence (metadata_confidence an) (name gd) = 0"
    using assms(2,4) by (simp add: guideConfidence_absent)
  obtain mp where res: "results = fst (generateGuides w g (metadata_confidence an) mp
                             (sortedGuides (metadata_confidence an)))"
    using generateDocumentation_results [OF assms(3,5)] by blast
  have succ: "c = 0" if "StatusSuccess (name gd) p c \<in> set results" for p c
    using that zero unfolding res by (auto dest: generateGuides_success_confidence)
  have line: "pc = 0 \<and> e = Red"
    if "(name gd, e, pc) \<in> set (successfulGuides (createIndexContent an results))" for e pc
  proof -
    from that obtain p c where "StatusSuccess (name gd) p c \<in> set results"
      and "pc = toPercent c" and "e = confidenceEmoji (toPercent c)"
      unfolding createIndexContent_def by (auto dest: successLines_origin)
    then show ?thesis
      using succ [of p c] by (simp add: toPercent_def confidenceEmoji_def)
  qed
  show ?thesis
    using mismatched_names zero succ line by blast
qed

theorem mismatched_guide_confidence_zero_witness:
  "getProp (metadata_confidence
       (compileAnalysis sampleTechStack sampleArchitecture sampleExamples \<lparr>totalFiles = Some 2\<rparr>))
     ''components'' = Some (8 / 10)
   \<and> guideConfidence (metadata_confidence
       (compileAnalysis sampleTechStack sampleArchitecture sampleExamples \<lparr>totalFiles = Some 2\<rparr>))
     ''component-architecture'' = 0
   \<and> snd (generateDocumentation calmWorld (afterAnalysis calmWorld sampleGenerator)) =
       Value
        [StatusSuccess ''authentication-architecture'' ''out/authentication-architecture.md'' 0,
         StatusSuccess ''component-architecture'' ''out/component-architecture.md'' 0,
         StatusSuccess ''state-management-architecture'' ''out/state-management-architecture.md'' 0,
         StatusSuccess ''database-architecture'' ''out/database-architecture.md'' (4 / 10),
         StatusSuccess ''background-jobs-architecture'' ''out/background-jobs-architecture.md'' 0,
         StatusSuccess ''file-storage-architecture'' ''out/file-storage-architecture.md'' 0,
         StatusSuccess ''error-handling-architecture'' ''out/error-handling-architecture.md'' 0,
         StatusSuccess ''testing-architecture'' ''out/testing-architecture.md'' 0,
         StatusSuccess ''integration-architecture'' ''out/integration-architecture.md'' 0,
         StatusSuccess ''deployment-architecture'' ''out/deployment-architecture.md'' 0]"
proof -
  let ?an = "compileAnalysis sampleTechStack sampleArchitecture sampleExamples \<lparr>totalFiles = Some 2\<rparr>"
  let ?g = "afterAnalysis calmWorld sampleGenerator"
  let ?gd = "\<lparr>name = ''component-architecture'', priority = 1\<rparr>"
  have mem: "?gd \<in> set guides"
    by (simp add: guides_def)
  have mis: "focusArea (name ?gd) \<notin> set domains"
    by code_simp
  have an: "analysis ?g = Some ?an"
    by code_simp
  have conf: "metadata_confidence ?an
                = calculateConfidenceScores sampleTechStack sampleArchitecture sampleExamples"
    by (simp add: compileAnalysis_def)
  have res: "snd (generateDocumentation calmWorld ?g) =
       Value
        [StatusSuccess ''authentication-architecture'' ''out/authentication-architecture.md'' 0,
         StatusSuccess ''component-architecture'' ''out/component-architecture.md'' 0,
         StatusSuccess ''state-management-architecture'' ''out/state-management-architecture.md'' 0,
         StatusSuccess ''database-architecture'' ''out/database-architecture.md'' (4 / 10),
         StatusSuccess ''background-jobs-architecture'' ''out/background-jobs-architecture.md'' 0,
         StatusSuccess ''file-storage-architecture'' ''out/file-storage-architecture.md'' 0,
         StatusSuccess ''error-handling-architecture'' ''out/error-handling-architecture.md'' 0,
         StatusSuccess ''testing-architecture'' ''out/testing-architecture.md'' 0,
         StatusSuccess ''integration-architecture'' ''out/integration-architecture.md'' 0,
         StatusSuccess ''deployment-architecture'' ''out/deployment-architecture.md'' 0]"
    by code_simp
  have actual: "getProp (metadata_confidence ?an) ''components'' = Some (8 / 10)"
    by code_simp
  show ?thesis
    using mismatched_guide_confidence_zero [OF mem mis an conf res] res actual
    by simp
qed

section \<open>The exit status\<close>

lemma fromCall_not_Exit: "fromCall r \<noteq> Exit n"
  unfolding fromCall_def by (cases r) auto

lemma andThen_Exit:
  "andThen m f = Exit n \<Longrightarrow> m = Exit n \<or> (\<exists>x. m = Value x \<and> f x = Exit n)"
  unfolding andThen_def by (cases m) auto

lemma loadConfig_cases:
  "loadConfig w g = Exit 1 \<or> (\<exists>c. loadConfig w g = Value c)"
  unfolding loadConfig_def by (auto split: sum.splits)

lemma loadConfig_Value_iff:
  "loadConfig w g = Value c \<longleftrightarrow>
     (\<exists>configData. readFile w (configPath g) = Inr configData \<and> JSON_parse w configData = Inr c)"
  unfolding loadConfig_def by (auto split: sum.splits)

lemma initialize_Value_iff:
  "initialize w g = Value g1 \<longleftrightarrow>
     (\<exists>configData c. readFile w (configPath g) = Inr configData \<and> JSON_parse w configData = Inr c
        \<and> \<not> isl (newAIClient w (ai c)) \<and> \<not> isl (mkdir w (outputPath g))
        \<and> g1 = g\<lparr>config := Some c, aiClient := True\<rparr>)"
  unfolding initialize_def
  by (auto simp: andThen_Value_iff fromCall_Value_iff loadConfig_Value_iff not_isl_iff)

lemma initialize_Exit: "initialize w g = Exit n \<Longrightarrow> n = 1"
  unfolding initialize_def
  using loadConfig_cases [of w g]
  by (auto dest!: andThen_Exit simp: fromCall_not_Exit)

lemma analyzeCodebase_state:
  "snd (snd (analyzeCodebase w g)) = Value an \<Longrightarrow> fst (analyzeCodebase w g) = g\<lparr>analysis := Some an\<rparr>"
  unfolding analyzeCodebase_def saveAnalysisResults_def Let_def
  by (auto simp: andThen_Value_iff fromCall_Value_iff split: sum.splits)

lemma analyzeCodebase_not_Exit: "snd (snd (analyzeCodebase w g)) \<noteq> Exit n"
  unfolding analyzeCodebase_def saveAnalysisResults_def Let_def
  by (auto simp: fromCall_not_Exit dest!: andThen_Exit split: sum.splits)

lemma generateDocumentation_Value_iff:
  assumes "analysis g = Some an"
  shows "(\<exists>results. snd (generateDocumentation w g) = Value results) \<longleftrightarrow>
           \<not> isl (readFile w masterPromptPath)
           \<and> \<not> isl (writeFile w (path_join (outputPath g) ''README.md''))"
  using assms
  unfolding generateDocumentation_def loadMasterPrompt_def generateIndex_def Let_def
  by (auto simp: andThen_Value_iff fromCall_Value_iff not_isl_iff fromCall_def split: sum.splits outcome.splits)

lemma generateDocumentation_not_Exit: "snd (generateDocumentation w g) \<noteq> Exit n"
  unfolding generateDocumentation_def loadMasterPrompt_def generateIndex_def Let_def
  by (auto simp: fromCall_not_Exit fromCall_def dest!: andThen_Exit split: sum.splits outcome.splits option.splits)

lemma validateDocumentation_Value_iff:
  "(\<exists>reports. validateDocumentation w g = Value reports) \<longleftrightarrow>
     \<not> isl (newValidators w (config g))
     \<and> \<not> isl (validate w AccuracyValidator (outputPath g))
     \<and> \<not> isl (validate w CompletenessValidator (outputPath g))
     \<and> \<not> isl (validate w ConsistencyValidator (outputPath g))"
  unfolding validateDocumentation_def
  by (auto simp: andThen_Value_iff fromCall_Value_iff not_isl_iff)

lemma validateDocumentation_not_Exit: "validateDocumentation w g \<noteq> Exit n"
  unfolding validateDocumentation_def
  by (auto simp: fromCall_not_Exit dest!: andThen_Exit)

lemma catchExit_Value_iff: "catchExit m = Value v \<longleftrightarrow> m = Value v"
  unfolding catchExit_def by (cases m) auto

lemma catchExit_cases:
  "(\<And>n. m = Exit n \<Longrightarrow> n = 1) \<Longrightarrow> (\<exists>v. catchExit m = Value v) \<or> catchExit m = Exit 1"
  unfolding catchExit_def by (cases m) auto

lemma run_after_initialize:
  assumes "initialize w g = Value g1"
  shows "run w g =
     catchExit
       (andThen (snd (snd (analyzeCodebase w g1))) (\<lambda>_.
        andThen (snd (generateDocumentation w (fst (analyzeCodebase w g1)))) (\<lambda>results.
        andThen (validateDocumentation w (fst (analyzeCodebase w g1))) (\<lambda>_.
          Value results))))"
  unfolding run_def using assms by (cases "analyzeCodebase w g1") (simp add: andThen_def)

lemma run_without_initialize:
  assumes "\<And>g1. initialize w g \<noteq> Value g1"
  shows "run w g = Exit 1"
  unfolding run_def using assms initialize_Exit [of w g]
  by (cases "initialize w g") (auto simp: andThen_def catchExit_def)

lemma run_cases: "(\<exists>results. run w g = Value results) \<or> run w g = Exit 1"
proof (cases "\<exists>g1. initialize w g = Value g1")
  case True
  then obtain g1 where g1: "initialize w g = Value g1" by blast
  show ?thesis
    unfolding run_after_initialize [OF g1]
    by (rule catchExit_cases)
      (auto dest!: andThen_Exit
         simp: analyzeCodebase_not_Exit generateDocumentation_not_Exit validateDocumentation_not_Exit)
next
  case False
  then show ?thesis using run_without_initialize [of w g] by blast
qed

lemma run_Value_iff: "(\<exists>results. run w g = Value results) \<longleftrightarrow> fatalStepsSucceed w g"
proof (cases "\<exists>g1. initialize w g = Value g1")
  case False
  then have "run w g = Exit 1" using run_without_initialize [of w g] by blast
  moreover have "\<not> fatalStepsSucceed w g"
    using False unfolding fatalStepsSucceed_def initialize_Value_iff
    by (auto split: sum.splits)
  ultimately show ?thesis by simp
next
  case True
  then obtain g1 where g1: "initialize w g = Value g1" by blast
  then obtain configData c where cfg: "readFile w (configPath g) = Inr configData"
      "JSON_parse w configData = Inr c"
      "\<not> isl (newAIClient w (ai c))" "\<not> isl (mkdir w (outputPath g))"
      "g1 = g\<lparr>config := Some c, aiClient := True\<rparr>"
    unfolding initialize_Value_iff by blast
  have fields: "projectRoot g1 = projectRoot g" "outputPath g1 = outputPath g" "config g1 = Some c"
    using cfg(5) by simp_all
  let ?g2 = "fst (analyzeCodebase w g1)"
  show ?thesis
  proof
    assume "\<exists>results. run w g = Value results"
    then obtain results an where an: "snd (snd (analyzeCodebase w g1)) = Value an"
      and gen: "snd (generateDocumentation w ?g2) = Value results"
      and val: "\<exists>reports. validateDocumentation w ?g2 = Value reports"
      unfolding run_after_initialize [OF g1] catchExit_Value_iff andThen_Value_iff by blast
    have g2: "?g2 = g1\<lparr>analysis := Some an\<rparr>"
      using analyzeCodebase_state [OF an] .
    have g2a: "analysis ?g2 = Some an" and g2o: "outputPath ?g2 = outputPath g"
      and g2c: "config ?g2 = Some c"
      using g2 fields by simp_all
    have "\<not> isl (readFile w masterPromptPath)
           \<and> \<not> isl (writeFile w (path_join (outputPath g) ''README.md''))"
      using generateDocumentation_Value_iff [OF g2a, of w] gen g2o by auto
    moreover have "\<not> isl (newValidators w (Some c))
       \<and> \<not> isl (validate w AccuracyValidator (outputPath g))
       \<and> \<not> isl (validate w CompletenessValidator (outputPath g))
       \<and> \<not> isl (validate w ConsistencyValidator (outputPath g))"
      using val validateDocumentation_Value_iff [of w ?g2] g2o g2c by simp
    moreover have "\<not> isl (newAnalyzers w (Some c))
      \<and> \<not> isl (techStackAnalyze w (projectRoot g))
      \<and> \<not> isl (architectureAnalyze w (projectRoot g))
      \<and> \<not> isl (codeExtract w (projectRoot g))
      \<and> \<not> isl (fileStructureAnalyze w (projectRoot g))
      \<and> \<not> isl (writeFile w (path_join (outputPath g) ''analysis-results.json''))"
      using an unfolding analyzeCodebase_Value_iff fields by auto
    ultimately show "fatalStepsSucceed w g"
      unfolding fatalStepsSucceed_def using cfg(1-4) by simp
  next
    assume ok: "fatalStepsSucceed w g"
    then have steps: "\<not> isl (newAnalyzers w (Some c))"
      "\<not> isl (techStackAnalyze w (projectRoot g))"
      "\<not> isl (architectureAnalyze w (projectRoot g))"
      "\<not> isl (codeExtract w (projectRoot g))"
      "\<not> isl (fileStructureAnalyze w (projectRoot g))"
      "\<not> isl (writeFile w (path_join (outputPath g) ''analysis-results.json''))"
      "\<not> isl (readFile w masterPromptPath)"
      "\<not> isl (writeFile w (path_join (outputPath g) ''README.md''))"
      "\<not> isl (newValidators w (Some c))"
      "\<not> isl (validate w AccuracyValidator (outputPath g))"
      "\<not> isl (validate w CompletenessValidator (outputPath g))"
      "\<not> isl (validate w ConsistencyValidator (outputPath g))"
      unfolding fatalStepsSucceed_def using cfg(1,2) by simp_all
    obtain an where an: "snd (snd (analyzeCodebase w g1)) = Value an"
      using steps(1-6) unfolding analyzeCodebase_Value_iff fields not_isl_iff by blast
    have g2: "?g2 = g1\<lparr>analysis := Some an\<rparr>"
      using analyzeCodebase_state [OF an] .
    have g2a: "analysis ?g2 = Some an" and g2o: "outputPath ?g2 = outputPath g"
      and g2c: "config ?g2 = Some c"
      using g2 fields by simp_all
    obtain results where gen: "snd (generateDocumentation w ?g2) = Value results"
      using generateDocumentation_Value_iff [OF g2a, of w] steps(7,8) g2o by auto
    obtain reports where val: "validateDocumentation w ?g2 = Value reports"
      using validateDocumentation_Value_iff [of w ?g2] steps(9-12) g2o g2c by auto
    show "\<exists>results. run w g = Value results"
      unfolding run_after_initialize [OF g1] catchExit_Value_iff andThen_Value_iff
      using an gen val by blast
  qed
qed

text \<open>
  Claim C4, amended. The command ends with status 0 exactly when every step outside the
  loop over the guides succeeds, and with status 1 otherwise: a configuration that cannot
  be read or parsed is fatal, and so is a failure of the client or analyzer construction,
  of the output directory, of an analyzer, of saving the analysis, of reading the master
  prompt, of writing the index and of validation, also when an analysis has already been
  produced. Failures of single guides do not change the status.
\<close>

theorem exit_status_amended:
  "exitStatus (run w g) = (if fatalStepsSucceed w g then 0 else 1)"
proof (cases "fatalStepsSucceed w g")
  case True
  then obtain results where "run w g = Value results"
    using run_Value_iff [of w g] by blast
  then show ?thesis using True by (simp add: exitStatus_def)
next
  case False
  then have "run w g = Exit 1"
    using run_Value_iff [of w g] run_cases [of w g] by blast
  then show ?thesis using False by (simp add: exitStatus_def)
qed

text \<open>
  With the master prompt missing the run ends with status 1 although the configuration
  was parsed, every analyzer read the project and the analysis was produced and saved.
\<close>

theorem exit_after_analysis_counterexample:
  "exitStatus (run promptlessWorld sampleGenerator) = 1
   \<and> producedAnalysis promptlessWorld sampleGenerator =
       Some (compileAnalysis sampleTechStack sampleArchitecture sampleExamples \<lparr>totalFiles = Some 2\<rparr>)
   \<and> loadConfig promptlessWorld sampleGenerator = Value \<lparr>ai = Some \<lparr>rateLimitDelay = Some 100\<rparr>\<rparr>
   \<and> \<not> isl (techStackAnalyze promptlessWorld (projectRoot sampleGenerator))
   \<and> \<not> isl (architectureAnalyze promptlessWorld (projectRoot sampleGenerator))
   \<and> \<not> isl (codeExtract promptlessWorld (projectRoot sampleGenerator))
   \<and> \<not> isl (fileStructureAnalyze promptlessWorld (projectRoot sampleGenerator))"
  by code_simp

theorem exit_status_amended_witness:
  "fatalStepsSucceed throttledWorld sampleGenerator
   \<and> exitStatus (run throttledWorld sampleGenerator) = 0
   \<and> \<not> fatalStepsSucceed promptlessWorld sampleGenerator
   \<and> exitStatus (run promptlessWorld sampleGenerator) = 1"
proof -
  have ok: "fatalStepsSucceed throttledWorld sampleGenerator"
    by code_simp
  have bad: "\<not> fatalStepsSucceed promptlessWorld sampleGenerator"
    by code_simp
  show ?thesis
    using exit_status_amended [of throttledWorld sampleGenerator]
      exit_status_amended [of promptlessWorld sampleGenerator] ok bad
    by simp
qed

end
